theory Spec2Isabelle
  imports Complex_Main
begin

section \<open>The stellar population simulator of Notebooks/03.SimpleMean.ipynb\<close>

text \<open>
  The class \<open>StellarPopulation\<close> holds a true distance, draws noisy observations of it
  from numpy's global random source (\<open>generate\<close>) and reduces them to their mean while
  reading the wall clock (\<open>estimate_mean_distance\<close>).

  Python floats are idealised as reals. An attribute that has not been assigned yet is
  \<open>None\<close>; reading it raises \<open>AttributeError\<close>. The exceptions that can reach the caller
  are values of \<open>error\<close>; a method returns its outcome together with the object and the
  ambient source it used, so that an assignment made before a raise stays visible.
\<close>

subsection \<open>Exceptions, numpy scalars and the ambient sources\<close>

datatype error = AttributeError | ValueError

text \<open>The scalar returned by \<open>np.mean\<close>: a number, or \<open>nan\<close> for an empty array.\<close>

datatype npfloat = Finite real | NaN

text \<open>
  numpy's global random source, seen as the standard-normal deviates it will hand out
  next: \<open>g i\<close> is the deviate of the \<open>i\<close>-th coming draw. The wall clock likewise:
  \<open>c i\<close> is what the \<open>i\<close>-th coming call of \<open>time.time()\<close> returns, in seconds.
\<close>

type_synonym rng = "nat \<Rightarrow> real"

type_synonym clock = "nat \<Rightarrow> real"

text \<open>
  \<open>np.random.randn(n)\<close>: an array of \<open>n\<close> deviates taken from the source, which moves
  on by \<open>n\<close>; a negative dimension raises \<open>ValueError\<close> and draws nothing.
\<close>

definition randn :: "int \<Rightarrow> rng \<Rightarrow> (error + real list) \<times> rng" where
  "randn n g =
     (if n < 0 then (Inl ValueError, g)
      else (Inr (map g [0..<nat n]), \<lambda>i. g (i + nat n)))"

text \<open>
  \<open>np.random.seed(s)\<close>: the source is replaced by the one the generator's
  initialisation \<open>mt\<close> derives from the seed alone; the earlier state is dropped.
\<close>

definition seed :: "(nat \<Rightarrow> rng) \<Rightarrow> nat \<Rightarrow> rng \<Rightarrow> rng" where
  "seed mt s g = mt s"

text \<open>\<open>time.time()\<close>: the next reading of the clock.\<close>

definition wallclock_time :: "clock \<Rightarrow> real \<times> clock" where
  "wallclock_time c = (c 0, \<lambda>i. c (Suc i))"

text \<open>
  \<open>np.mean(a)\<close> on a one-dimensional array: the elements are accumulated and the sum is
  divided by their number; on an empty array the result is \<open>nan\<close> (with a warning, no
  exception).
\<close>

definition np_mean :: "real list \<Rightarrow> npfloat" where
  "np_mean a =
     (if length a = 0 then NaN
      else Finite (foldl (+) 0 a / real (length a)))"

subsection \<open>Python builtins: \<open>range\<close> and \<open>str\<close>\<close>

definition range_py :: "int \<Rightarrow> int list" where
  "range_py n = [0..n - 1]"

definition digit_char :: "nat \<Rightarrow> char" where
  "digit_char d = ''0123456789'' ! d"

function str_nat :: "nat \<Rightarrow> string" where
  "str_nat n =
     (if n < 10 then [digit_char n]
      else str_nat (n div 10) @ [digit_char (n mod 10)])"
  by pat_completeness auto
termination
  by (relation "measure id") auto

declare str_nat.simps [simp del]

definition str :: "int \<Rightarrow> string" where
  "str i = (if i < 0 then CHR ''-'' # str_nat (nat (- i)) else str_nat (nat i))"

subsection \<open>The class\<close>

record StellarPopulation =
  distance :: real
  N :: "int option"
  rms_error :: "real option"
  d_obs :: "real list option"
  id_list :: "string list option"

text \<open>\<open>__init__\<close> stores the distance and nothing else.\<close>

definition init :: "real \<Rightarrow> StellarPopulation" where
  "init d = \<lparr>distance = d, N = None, rms_error = None, d_obs = None, id_list = None\<rparr>"

text \<open>
  The call \<open>StellarPopulation(distance)\<close>: it would pass on an exception raised by
  \<open>__init__\<close>, which raises none.
\<close>

definition construct_pop :: "real \<Rightarrow> error + StellarPopulation" where
  "construct_pop d = Inr (init d)"

text \<open>
  \<open>generate\<close>: the two parameters are stored first; then the deviates are drawn (here a
  negative \<open>N\<close> raises, with the two assignments already made), scaled and shifted
  elementwise, and the identifiers are set to \<open>map(str, range(N))\<close>, a list in the
  Python 2 the notebook is written in.
\<close>

definition generate ::
  "int \<Rightarrow> real \<Rightarrow> StellarPopulation \<times> rng \<Rightarrow> (error + unit) \<times> StellarPopulation \<times> rng" where
  "generate n r = (\<lambda>(self, g).
     let self = self\<lparr>N := Some n\<rparr>;
         self = self\<lparr>rms_error := Some r\<rparr>
     in case randn n g of
          (Inl e, g') \<Rightarrow> (Inl e, self, g')
        | (Inr z, g') \<Rightarrow>
            let self = self\<lparr>d_obs := Some (map (\<lambda>x. distance self + (r * distance self) * x) z)\<rparr>;
                self = self\<lparr>id_list := Some (map str (range_py n))\<rparr>
            in (Inr (), self, g'))"

text \<open>
  A call of \<open>generate\<close> with arguments left out: the signature is
  \<open>generate(self, N=1000, rms_error=0.1)\<close>.
\<close>

definition generate_call ::
  "int option \<Rightarrow> real option \<Rightarrow> StellarPopulation \<times> rng
     \<Rightarrow> (error + unit) \<times> StellarPopulation \<times> rng" where
  "generate_call n_arg r_arg =
     generate (case n_arg of None \<Rightarrow> 1000 | Some n \<Rightarrow> n)
              (case r_arg of None \<Rightarrow> 1 / 10 | Some r \<Rightarrow> r)"

text \<open>
  \<open>estimate_mean_distance\<close>: the clock is read, then \<open>self.d_obs\<close> (which raises when
  \<open>generate\<close> never ran), the mean is taken, the clock is read again, and the mean is
  returned with the difference of the readings times \<open>1e3\<close>.
\<close>

definition estimate_mean_distance ::
  "StellarPopulation \<times> clock \<Rightarrow> (error + npfloat \<times> real) \<times> StellarPopulation \<times> clock" where
  "estimate_mean_distance = (\<lambda>(self, c).
     let (start, c) = wallclock_time c
     in case d_obs self of
          None \<Rightarrow> (Inl AttributeError, self, c)
        | Some a \<Rightarrow>
            let mu = np_mean a;
                (stop, c) = wallclock_time c;
                time = (stop - start) * 1000
            in (Inr (mu, time), self, c))"

subsection \<open>Reading a decimal numeral back\<close>

text \<open>
  The value of a string of decimal digits, most significant digit first. It is the
  inverse of \<open>str\<close> on the non-negative integers, which is how the identifiers are
  shown to be decimal numerals and pairwise distinct.
\<close>

definition digit_val :: "char \<Rightarrow> nat" where
  "digit_val ch = of_char ch - 48"

definition decimal_val :: "string \<Rightarrow> nat" where
  "decimal_val s = foldl (\<lambda>a ch. 10 * a + digit_val ch) 0 s"

section \<open>Auxiliary facts\<close>

subsection \<open>\<open>str\<close> is injective on the naturals\<close>

lemma digit_val_digit_char: "d < 10 \<Longrightarrow> digit_val (digit_char d) = d"
proof -
  assume "d < 10"
  then have "d \<in> {0, 1, 2, 3, 4, 5, 6, 7, 8, 9}" by auto
  then show ?thesis
    by (auto simp: digit_val_def digit_char_def)
qed

lemma decimal_val_snoc: "decimal_val (s @ [ch]) = 10 * decimal_val s + digit_val ch"
  by (simp add: decimal_val_def)

lemma decimal_val_str_nat: "decimal_val (str_nat n) = n"
proof (induction n rule: str_nat.induct)
  case (1 n)
  show ?case
  proof (cases "n < 10")
    case True
    then show ?thesis
      by (simp add: str_nat.simps [of n] decimal_val_def digit_val_digit_char)
  next
    case False
    then have "decimal_val (str_nat (n div 10)) = n div 10"
      using "1.IH" by simp
    with False show ?thesis
      by (simp add: str_nat.simps [of n] decimal_val_snoc digit_val_digit_char)
  qed
qed

lemma str_nat_inj: "inj str_nat"
  by (rule inj_on_inverseI [where g = decimal_val]) (rule decimal_val_str_nat)

lemma str_inj_on_nonneg: "inj_on str {0..}"
proof (rule inj_onI)
  fix i j :: int
  assume "i \<in> {0..}" "j \<in> {0..}" "str i = str j"
  then have "str_nat (nat i) = str_nat (nat j)" "0 \<le> i" "0 \<le> j"
    by (simp_all add: str_def)
  then have "nat i = nat j"
    using str_nat_inj by (simp add: inj_eq)
  with \<open>0 \<le> i\<close> \<open>0 \<le> j\<close> show "i = j" by simp
qed

lemma decimal_val_str: "decimal_val (str (int i)) = i"
  by (simp add: str_def decimal_val_str_nat)

subsection \<open>\<open>range\<close>\<close>

lemma length_range_py: "length (range_py n) = nat n"
  by (simp add: range_py_def)

lemma nth_range_py: "i < nat n \<Longrightarrow> range_py n ! i = int i"
  by (simp add: range_py_def)

lemma distinct_ids: "distinct (map str (range_py n))"
proof -
  have "set (range_py n) \<subseteq> {0..}"
    by (auto simp: range_py_def)
  then have "inj_on str (set (range_py n))"
    by (rule inj_on_subset [OF str_inj_on_nonneg])
  then show ?thesis
    by (simp add: distinct_map range_py_def)
qed

subsection \<open>The mean as a sum\<close>

lemma foldl_add_sum_list: "foldl (+) a xs = a + sum_list (xs :: real list)"
  by (induction xs arbitrary: a) simp_all

lemma np_mean_nonempty:
  "xs \<noteq> [] \<Longrightarrow> np_mean xs = Finite (sum_list xs / real (length xs))"
  by (simp add: np_mean_def foldl_add_sum_list)

subsection \<open>\<open>generate\<close> in closed form\<close>

lemma generate_nonneg:
  "0 \<le> n \<Longrightarrow> generate n r (self, g) =
     (Inr (),
      self\<lparr>N := Some n, rms_error := Some r,
           d_obs := Some (map (\<lambda>i. distance self + (r * distance self) * g i) [0..<nat n]),
           id_list := Some (map str (range_py n))\<rparr>,
      \<lambda>i. g (i + nat n))"
  by (simp add: generate_def randn_def Let_def comp_def)

lemma generate_neg:
  "n < 0 \<Longrightarrow> generate n r (self, g) =
     (Inl ValueError, self\<lparr>N := Some n, rms_error := Some r\<rparr>, g)"
  by (simp add: generate_def randn_def Let_def)

lemma generate_zero:
  "generate 0 r (self, g) =
     (Inr (), self\<lparr>N := Some 0, rms_error := Some r, d_obs := Some [], id_list := Some []\<rparr>, g)"
  by (simp add: generate_def randn_def range_py_def)

section \<open>Construction\<close>

text \<open>
  C8, as the code has it. The constructor validates nothing: for every distance, positive or not,
  construction succeeds and yields an object holding that distance and no observation
  attributes.
\<close>

theorem construct_accepts_any_distance:
  "construct_pop d = Inr \<lparr>distance = d, N = None, rms_error = None, d_obs = None, id_list = None\<rparr>"
  by (simp add: construct_pop_def init_def)

text \<open>
  C8, as stated, fails: constructing with distance \<open>-1.0\<close> gives an object, not an error.
\<close>

theorem construct_negative_counterexample:
  "construct_pop (- 1) = Inr (init (- 1)) \<and> distance (init (- 1)) = - 1 \<and> \<not> isl (construct_pop (- 1))"
  by (simp add: construct_pop_def init_def)

section \<open>Estimating before generating\<close>

text \<open>
  C6. On a freshly constructed population, whatever its distance and whatever the clock
  shows, \<open>estimate_mean_distance\<close> raises instead of returning a value: the sample
  attribute does not exist yet, which Python reports as \<open>AttributeError\<close>. The object is
  left as constructed.
\<close>

theorem estimate_before_generate_fails:
  "fst (estimate_mean_distance (init d, c)) = Inl AttributeError
   \<and> fst (snd (estimate_mean_distance (init d, c))) = init d"
  by (simp add: estimate_mean_distance_def wallclock_time_def init_def)

section \<open>The generated sample\<close>

text \<open>
  C1. Whatever state the population is in (freshly constructed, or holding the sample of
  an earlier call, which is then replaced) and whatever the distance and the noise level
  are, a call of \<open>generate\<close> with \<open>N \<ge> 0\<close> succeeds and leaves exactly \<open>N\<close> observed
  distances and exactly \<open>N\<close> identifiers. The identifier at position \<open>i\<close> is \<open>str(i)\<close>, a
  decimal numeral whose value is \<open>i\<close>, it labels the observation built from the \<open>i\<close>-th
  deviate of the call, and the identifiers are pairwise distinct.
\<close>

theorem generate_yields_labelled_sample:
  assumes "0 \<le> n" and "generate n r (self, g) = (res, self', g')"
  shows "res = Inr () \<and> N self' = Some n \<and>
         (\<exists>obs ids. d_obs self' = Some obs \<and> id_list self' = Some ids
            \<and> length obs = nat n \<and> length ids = nat n \<and> length ids = length obs
            \<and> (\<forall>i<nat n. ids ! i = str (int i) \<and> decimal_val (ids ! i) = i
                          \<and> obs ! i = distance self + (r * distance self) * g i)
            \<and> distinct ids)"
proof -
  from assms have res: "res = Inr ()"
    and self': "self' = self\<lparr>N := Some n, rms_error := Some r,
           d_obs := Some (map (\<lambda>i. distance self + (r * distance self) * g i) [0..<nat n]),
           id_list := Some (map str (range_py n))\<rparr>"
    by (simp_all add: generate_nonneg)
  let ?obs = "map (\<lambda>i. distance self + (r * distance self) * g i) [0..<nat n]"
  let ?ids = "map str (range_py n)"
  have "d_obs self' = Some ?obs" "id_list self' = Some ?ids" "N self' = Some n"
    by (simp_all add: self')
  moreover have "length ?obs = nat n" "length ?ids = nat n"
    by (simp_all add: length_range_py)
  moreover have "\<forall>i<nat n. ?ids ! i = str (int i) \<and> decimal_val (?ids ! i) = i
                   \<and> ?obs ! i = distance self + (r * distance self) * g i"
    by (simp add: length_range_py nth_range_py decimal_val_str)
  moreover have "distinct ?ids"
    by (rule distinct_ids)
  ultimately show ?thesis
    using res by (simp add: nth_range_py decimal_val_str)
qed

text \<open>
  The theorem at work on a second call: a population at distance 3 first draws three
  stars, then two; the second sample replaces the first and is labelled \<open>0\<close>, \<open>1\<close>.
\<close>

theorem generate_yields_labelled_sample_witness:
  "(0::int) \<le> 2
   \<and> fst (generate 3 (1 / 10) (init 3, real)) = Inr ()
   \<and> id_list (fst (snd (generate 3 (1 / 10) (init 3, real)))) = Some [''0'', ''1'', ''2'']
   \<and> fst (generate 2 (1 / 2) (snd (generate 3 (1 / 10) (init 3, real)))) = Inr ()
   \<and> (\<exists>obs ids. d_obs (fst (snd (generate 2 (1 / 2) (snd (generate 3 (1 / 10) (init 3, real)))))) = Some obs
        \<and> id_list (fst (snd (generate 2 (1 / 2) (snd (generate 3 (1 / 10) (init 3, real)))))) = Some ids
        \<and> length obs = 2 \<and> length ids = 2 \<and> ids = [''0'', ''1''] \<and> distinct ids)"
  using generate_yields_labelled_sample [of 2 "1 / 2"
      "fst (snd (generate 3 (1 / 10) (init 3, real)))"
      "snd (snd (generate 3 (1 / 10) (init 3, real)))"
      "fst (generate 2 (1 / 2) (snd (generate 3 (1 / 10) (init 3, real))))"
      "fst (snd (generate 2 (1 / 2) (snd (generate 3 (1 / 10) (init 3, real)))))"
      "snd (snd (generate 2 (1 / 2) (snd (generate 3 (1 / 10) (init 3, real)))))"]
  by (simp add: generate_def randn_def init_def range_py_def upto.simps upt_rec
      str_def str_nat.simps digit_char_def)

text \<open>
  C3. After \<open>generate(N, r)\<close> with \<open>N \<ge> 0\<close> on a population at distance \<open>d\<close>, observation
  \<open>i\<close> is \<open>d + (r * d) * z\<^sub>i\<close>, where \<open>z\<^sub>i\<close> is the \<open>i\<close>-th deviate the random source
  hands out during the call; each observation has a deviate of its own, and the source
  is left \<open>N\<close> draws further on. With \<open>r = 0\<close> every observation is \<open>d\<close>.
\<close>

theorem generate_scales_deviates:
  assumes "0 \<le> n" and "generate n r (self, g) = (res, self', g')"
  shows "\<exists>obs. d_obs self' = Some obs \<and> length obs = nat n
           \<and> (\<forall>i<nat n. obs ! i = distance self + (r * distance self) * g i)
           \<and> (\<forall>i. g' i = g (i + nat n))
           \<and> (r = 0 \<longrightarrow> obs = replicate (nat n) (distance self))"
proof -
  let ?obs = "map (\<lambda>i. distance self + (r * distance self) * g i) [0..<nat n]"
  from assms have "d_obs self' = Some ?obs" and "g' = (\<lambda>i. g (i + nat n))"
    by (auto simp: generate_nonneg)
  moreover have "length ?obs = nat n"
    by simp
  moreover have "\<forall>i<nat n. ?obs ! i = distance self + (r * distance self) * g i"
    by simp
  moreover have "r = 0 \<longrightarrow> ?obs = replicate (nat n) (distance self)"
    by (simp add: map_replicate_const)
  ultimately show ?thesis
    by simp
qed

text \<open>
  With the deviates 0, 1, 2 and distance 3: noise level 0.1 gives 3, 3.3, 3.6 and leaves
  the deviate 3 as the next one; noise level 0 gives 3, 3, 3.
\<close>

theorem generate_scales_deviates_witness:
  "(0::int) \<le> 3
   \<and> d_obs (fst (snd (generate 3 (1 / 10) (init 3, real)))) = Some [3, 33 / 10, 18 / 5]
   \<and> snd (snd (generate 3 (1 / 10) (init 3, real))) 0 = 3
   \<and> d_obs (fst (snd (generate 3 0 (init 3, real)))) = Some [3, 3, 3]"
  using generate_scales_deviates [of 3 "1 / 10" "init 3" real
      "fst (generate 3 (1 / 10) (init 3, real))"
      "fst (snd (generate 3 (1 / 10) (init 3, real)))"
      "snd (snd (generate 3 (1 / 10) (init 3, real)))"]
    generate_scales_deviates [of 3 0 "init 3" real
      "fst (generate 3 0 (init 3, real))"
      "fst (snd (generate 3 0 (init 3, real)))"
      "snd (snd (generate 3 0 (init 3, real)))"]
  by (simp add: generate_def randn_def init_def upt_rec)

text \<open>
  C4. Take two populations with the same distance (whatever else they hold) and any two
  earlier states of the random source. If the source is reseeded with the same seed
  before each run and \<open>generate\<close> is called with the same \<open>N \<ge> 0\<close> and the same noise
  level, both calls succeed, and the observed distances of each run are the ones built
  from the first \<open>N\<close> deviates of the freshly seeded source: they are a function of the
  distance, \<open>N\<close>, the noise level and the seed alone, hence equal in the two runs, as are
  the identifiers. This also holds when the second run starts from the source the first
  run has left behind. Without reseeding, a second run continues where the first one
  stopped: its observations are built from the next \<open>N\<close> deviates, and they equal those
  of the first run only if the noise scale \<open>r * d\<close> is zero or the source happens to
  repeat its deviates. In general the result depends on the state of the source: for
  \<open>N > 0\<close> and a noise scale other than zero there are two states that give different
  observations.
\<close>

theorem generate_reproducible_when_seeded:
  "(0 \<le> n \<and> distance p1 = distance p2 \<longrightarrow>
      fst (generate n r (p1, seed mt s g1)) = Inr ()
      \<and> fst (generate n r (p2, seed mt s g2)) = Inr ()
      \<and> d_obs (fst (snd (generate n r (p1, seed mt s g1))))
          = Some (map (\<lambda>i. distance p1 + (r * distance p1) * mt s i) [0..<nat n])
      \<and> d_obs (fst (snd (generate n r (p1, seed mt s g1))))
          = d_obs (fst (snd (generate n r (p2, seed mt s g2))))
      \<and> id_list (fst (snd (generate n r (p1, seed mt s g1))))
          = id_list (fst (snd (generate n r (p2, seed mt s g2))))
      \<and> d_obs (fst (snd (generate n r
                 (p2, seed mt s (snd (snd (generate n r (p1, seed mt s g1))))))))
          = d_obs (fst (snd (generate n r (p1, seed mt s g1)))))
   \<and> (0 \<le> n \<and> distance p1 = distance p2 \<longrightarrow>
      d_obs (fst (snd (generate n r (p2, snd (snd (generate n r (p1, g)))))))
          = Some (map (\<lambda>i. distance p1 + (r * distance p1) * g (i + nat n)) [0..<nat n])
      \<and> ((d_obs (fst (snd (generate n r (p2, snd (snd (generate n r (p1, g)))))))
            = d_obs (fst (snd (generate n r (p1, g)))))
          = (r * distance p1 = 0 \<or> (\<forall>i<nat n. g (i + nat n) = g i))))
   \<and> (0 < n \<and> r * distance p1 \<noteq> 0 \<longrightarrow>
      (\<exists>g1 g2. d_obs (fst (snd (generate n r (p1, g1))))
                 \<noteq> d_obs (fst (snd (generate n r (p1, g2))))))"
proof (intro conjI impI)
  assume "0 \<le> n \<and> distance p1 = distance p2"
  then show "fst (generate n r (p1, seed mt s g1)) = Inr ()"
    and "fst (generate n r (p2, seed mt s g2)) = Inr ()"
    and "d_obs (fst (snd (generate n r (p1, seed mt s g1))))
          = Some (map (\<lambda>i. distance p1 + (r * distance p1) * mt s i) [0..<nat n])"
    and "d_obs (fst (snd (generate n r (p1, seed mt s g1))))
          = d_obs (fst (snd (generate n r (p2, seed mt s g2))))"
    and "id_list (fst (snd (generate n r (p1, seed mt s g1))))
          = id_list (fst (snd (generate n r (p2, seed mt s g2))))"
    and "d_obs (fst (snd (generate n r
                 (p2, seed mt s (snd (snd (generate n r (p1, seed mt s g1))))))))
          = d_obs (fst (snd (generate n r (p1, seed mt s g1))))"
    by (simp_all add: generate_nonneg seed_def)
next
  assume h: "0 \<le> n \<and> distance p1 = distance p2"
  let ?first = "map (\<lambda>i. distance p1 + (r * distance p1) * g i) [0..<nat n]"
  let ?second = "map (\<lambda>i. distance p1 + (r * distance p1) * g (i + nat n)) [0..<nat n]"
  from h have first: "d_obs (fst (snd (generate n r (p1, g)))) = Some ?first"
    by (simp add: generate_nonneg)
  from h show second:
    "d_obs (fst (snd (generate n r (p2, snd (snd (generate n r (p1, g))))))) = Some ?second"
    by (simp add: generate_nonneg)
  have "(?second = ?first) = (r * distance p1 = 0 \<or> (\<forall>i<nat n. g (i + nat n) = g i))"
    by auto
  then show "(d_obs (fst (snd (generate n r (p2, snd (snd (generate n r (p1, g)))))))
            = d_obs (fst (snd (generate n r (p1, g)))))
          = (r * distance p1 = 0 \<or> (\<forall>i<nat n. g (i + nat n) = g i))"
    by (simp only: first second option.inject)
next
  assume h: "0 < n \<and> r * distance p1 \<noteq> 0"
  let ?obs = "\<lambda>g. map (\<lambda>i. distance p1 + (r * distance p1) * g i) [0..<nat n]"
  have "?obs (\<lambda>_. 0) ! 0 \<noteq> ?obs (\<lambda>_. 1) ! 0"
    using h by simp
  then have "?obs (\<lambda>_. 0) \<noteq> ?obs (\<lambda>_. 1)"
    by metis
  then have "d_obs (fst (snd (generate n r (p1, \<lambda>_. 0))))
                 \<noteq> d_obs (fst (snd (generate n r (p1, \<lambda>_. 1))))"
    using h by (simp add: generate_nonneg)
  then show "\<exists>g1 g2. d_obs (fst (snd (generate n r (p1, g1))))
                 \<noteq> d_obs (fst (snd (generate n r (p1, g2))))"
    by blast
qed

text \<open>
  A fresh population and one that already holds a sample, both at distance 3, with noise
  level 0.1 and a source that counts 0, 1, 2, ... Reseeded with seed 5 (deviates 5, 6)
  from different earlier states, and again from the state the first run has left, each
  run draws 4.5 and 4.8. Without reseeding, the first run draws 3 and 3.3 and the second
  3.6 and 3.9, from the deviates 2 and 3.
\<close>

theorem generate_reproducible_when_seeded_witness:
  "(0::int) \<le> 2 \<and> (0::int) < 2
   \<and> distance (init 3) = distance ((init 3)\<lparr>d_obs := Some [7]\<rparr>)
   \<and> (1 / 10) * distance (init 3) \<noteq> 0
   \<and> d_obs (fst (snd (generate 2 (1 / 10) (init 3, seed (\<lambda>s i. real (s + i)) 5 real))))
       = Some [9 / 2, 24 / 5]
   \<and> d_obs (fst (snd (generate 2 (1 / 10)
         ((init 3)\<lparr>d_obs := Some [7]\<rparr>, seed (\<lambda>s i. real (s + i)) 5 (\<lambda>i. 0)))))
       = Some [9 / 2, 24 / 5]
   \<and> d_obs (fst (snd (generate 2 (1 / 10)
         ((init 3)\<lparr>d_obs := Some [7]\<rparr>,
          seed (\<lambda>s i. real (s + i)) 5
            (snd (snd (generate 2 (1 / 10) (init 3, seed (\<lambda>s i. real (s + i)) 5 real))))))))
       = Some [9 / 2, 24 / 5]
   \<and> d_obs (fst (snd (generate 2 (1 / 10) (init 3, real)))) = Some [3, 33 / 10]
   \<and> d_obs (fst (snd (generate 2 (1 / 10)
         ((init 3)\<lparr>d_obs := Some [7]\<rparr>, snd (snd (generate 2 (1 / 10) (init 3, real)))))))
       = Some [18 / 5, 39 / 10]
   \<and> d_obs (fst (snd (generate 2 (1 / 10)
         ((init 3)\<lparr>d_obs := Some [7]\<rparr>, snd (snd (generate 2 (1 / 10) (init 3, real)))))))
       \<noteq> d_obs (fst (snd (generate 2 (1 / 10) (init 3, real))))
   \<and> d_obs (fst (snd (generate 2 (1 / 10) (init 3, real))))
       \<noteq> d_obs (fst (snd (generate 2 (1 / 10) (init 3, \<lambda>i. 0))))"
  using generate_reproducible_when_seeded [of 2 "init 3" "(init 3)\<lparr>d_obs := Some [7]\<rparr>" "1 / 10"
      "\<lambda>s i. real (s + i)" 5 real "\<lambda>i. 0" real]
  by (simp add: generate_def randn_def init_def seed_def upt_rec)

text \<open>
  C7, as the code has it. \<open>generate\<close> fails exactly when \<open>N\<close> is negative, with the
  \<open>ValueError\<close> that \<open>randn\<close> raises for a negative dimension; the noise level is never
  examined, so every call with \<open>N \<ge> 0\<close> succeeds, negative noise level or not.
\<close>

theorem generate_fails_exactly_on_negative_count:
  "fst (generate n r (self, g)) = (if n < 0 then Inl ValueError else Inr ())"
  by (simp add: generate_nonneg generate_neg)

text \<open>
  C7, as stated, fails: \<open>generate(2, -0.5)\<close> on a population at distance 3 succeeds and
  stores the observations 3 and 1.5.
\<close>

theorem generate_negative_rms_counterexample:
  "fst (generate 2 (- (1 / 2)) (init 3, real)) = Inr ()
   \<and> d_obs (fst (snd (generate 2 (- (1 / 2)) (init 3, real)))) = Some [3, 3 / 2]
   \<and> \<not> isl (fst (generate 2 (- (1 / 2)) (init 3, real)))"
  by (simp add: generate_def randn_def init_def upt_rec)

text \<open>
  C10. A call of \<open>generate\<close> without arguments is the call \<open>generate(1000, 0.1)\<close>; a call
  that passes only \<open>N\<close> uses the noise level 0.1. The default call succeeds, stores
  \<open>N = 1000\<close> and \<open>rms_error = 0.1\<close>, and leaves exactly 1000 observations and 1000
  identifiers.
\<close>

theorem generate_default_arguments:
  "generate_call None None = generate 1000 (1 / 10)
   \<and> generate_call (Some n) None = generate n (1 / 10)
   \<and> generate_call (Some n) (Some r) = generate n r
   \<and> fst (generate_call None None (self, g)) = Inr ()
   \<and> N (fst (snd (generate_call None None (self, g)))) = Some 1000
   \<and> rms_error (fst (snd (generate_call None None (self, g)))) = Some (1 / 10)
   \<and> (\<exists>obs ids. d_obs (fst (snd (generate_call None None (self, g)))) = Some obs
         \<and> id_list (fst (snd (generate_call None None (self, g)))) = Some ids
         \<and> length obs = 1000 \<and> length ids = 1000)"
  by (simp add: generate_call_def generate_nonneg length_range_py)

section \<open>The mean estimate\<close>

text \<open>
  C2. On a population whose sample is not empty, \<open>estimate_mean_distance\<close> returns a
  pair: first the sum of all observed distances divided by their number, second the
  difference of the two clock readings taken after and before the computation, in
  milliseconds (the readings are in seconds).
\<close>

theorem estimate_returns_mean_and_milliseconds:
  assumes "d_obs self = Some obs" and "obs \<noteq> []"
  shows "fst (estimate_mean_distance (self, c)) =
           Inr (Finite ((\<Sum>i<length obs. obs ! i) / real (length obs)), (c 1 - c 0) * 1000)"
proof -
  have "sum_list obs = (\<Sum>i<length obs. obs ! i)"
    by (simp add: sum_list_sum_nth atLeast0LessThan)
  with assms show ?thesis
    by (simp add: estimate_mean_distance_def wallclock_time_def np_mean_nonempty)
qed

text \<open>
  The observations 3, 3.3, 3.6 have mean 3.3; the clock shows 0 s and then 1 s, which
  is 1000 ms.
\<close>

theorem estimate_returns_mean_and_milliseconds_witness:
  "d_obs (fst (snd (generate 3 (1 / 10) (init 3, real)))) = Some [3, 33 / 10, 18 / 5]
   \<and> [3, 33 / 10, 18 / 5] \<noteq> ([] :: real list)
   \<and> fst (estimate_mean_distance (fst (snd (generate 3 (1 / 10) (init 3, real))), real)) =
       Inr (Finite (33 / 10), 1000)"
  using estimate_returns_mean_and_milliseconds
    [of "fst (snd (generate 3 (1 / 10) (init 3, real)))" "[3, 33 / 10, 18 / 5]" real]
  by (simp add: generate_def randn_def init_def upt_rec lessThan_nat_numeral lessThan_Suc)

text \<open>
  C5, as the code has it. \<open>generate(0, r)\<close> leaves an empty sequence of observed
  distances and an empty sequence of identifiers. \<open>estimate_mean_distance\<close> does not guard
  the empty case: it returns, with \<open>nan\<close> as the mean and the duration in milliseconds.
\<close>

theorem estimate_on_empty_sample_returns_nan:
  "d_obs (fst (snd (generate 0 r (self, g)))) = Some []
   \<and> id_list (fst (snd (generate 0 r (self, g)))) = Some []
   \<and> fst (estimate_mean_distance (fst (snd (generate 0 r (self, g))), c))
       = Inr (NaN, (c 1 - c 0) * 1000)"
  by (simp add: generate_zero estimate_mean_distance_def wallclock_time_def np_mean_def)

text \<open>
  C5, as stated, fails: after \<open>generate(0, 0.1)\<close> on a population at distance 3 the
  estimate is a returned pair, not an error.
\<close>

theorem estimate_on_empty_sample_counterexample:
  "fst (generate 0 (1 / 10) (init 3, real)) = Inr ()
   \<and> d_obs (fst (snd (generate 0 (1 / 10) (init 3, real)))) = Some []
   \<and> fst (estimate_mean_distance (fst (snd (generate 0 (1 / 10) (init 3, real))), real))
       = Inr (NaN, 1000)
   \<and> \<not> isl (fst (estimate_mean_distance (fst (snd (generate 0 (1 / 10) (init 3, real))), real)))"
  by (simp add: generate_def randn_def range_py_def init_def estimate_mean_distance_def
      wallclock_time_def np_mean_def)

section \<open>What the methods leave alone\<close>

text \<open>
  C9. Every call of \<open>generate\<close>, failing or not, leaves the true distance as it was: the
  object afterwards differs from the object before in at most the sample size, the
  noise level, the observed distances and the identifiers. Its outcome carries no value:
  it is the unit value, or the \<open>ValueError\<close> of a negative \<open>N\<close>. Every call of
  \<open>estimate_mean_distance\<close>, failing or not, leaves the whole object as it was; beyond
  its result it only consumes clock readings, one when it fails and two when it returns.
\<close>

theorem frame_conditions:
  "distance (fst (snd (generate n r (self, g)))) = distance self
   \<and> (\<exists>a b c d. fst (snd (generate n r (self, g)))
         = self\<lparr>N := a, rms_error := b, d_obs := c, id_list := d\<rparr>)
   \<and> fst (generate n r (self, g)) \<in> {Inr (), Inl ValueError}
   \<and> fst (snd (estimate_mean_distance (self, c))) = self
   \<and> snd (snd (estimate_mean_distance (self, c)))
       = (\<lambda>i. c (i + (if d_obs self = None then 1 else 2)))"
proof (intro conjI)
  show "distance (fst (snd (generate n r (self, g)))) = distance self"
    by (cases "0 \<le> n") (simp_all add: generate_nonneg generate_neg)
  show "\<exists>a b c d. fst (snd (generate n r (self, g)))
         = self\<lparr>N := a, rms_error := b, d_obs := c, id_list := d\<rparr>"
  proof (cases "0 \<le> n")
    case True
    then show ?thesis
      by (simp add: generate_nonneg) blast
  next
    case False
    then have "fst (snd (generate n r (self, g)))
        = self\<lparr>N := Some n, rms_error := Some r, d_obs := d_obs self, id_list := id_list self\<rparr>"
      by (simp add: generate_neg)
    then show ?thesis
      by blast
  qed
  show "fst (generate n r (self, g)) \<in> {Inr (), Inl ValueError}"
    by (cases "0 \<le> n") (simp_all add: generate_nonneg generate_neg)
  show "fst (snd (estimate_mean_distance (self, c))) = self"
    by (simp add: estimate_mean_distance_def wallclock_time_def split: option.split)
  show "snd (snd (estimate_mean_distance (self, c)))
       = (\<lambda>i. c (i + (if d_obs self = None then 1 else 2)))"
    by (cases "d_obs self") (simp_all add: estimate_mean_distance_def wallclock_time_def)
qed

end
